theory Spec2Isabelle
  imports Complex_Main
begin

section \<open>The GridWorld environment of \<^verbatim>\<open>src/gridworld.py\<close>\<close>

text \<open>
  A shallow embedding of the class \<^verbatim>\<open>GridWorld\<close>: its constructor, \<^verbatim>\<open>reset\<close>,
  \<^verbatim>\<open>step\<close>, the transition function \<^verbatim>\<open>_get_next_state_and_reward\<close>, \<^verbatim>\<open>_is_done\<close> and
  the index-to-cell computation of the two overlay methods.

  Modelling decisions.
  \<^item> A cell \<^verbatim>\<open>(x, y)\<close> and an action \<^verbatim>\<open>(dx, dy)\<close> are tuples of Python integers, hence
    of type \<open>int \<times> int\<close>, and the comparisons of the boundary branches are comparisons
    of Python integers. The sum \<^verbatim>\<open>tuple(np.array(state) + np.array(action))\<close> is
    computed by NumPy in 64-bit integers and wraps around: it is \<open>np_add\<close> below.
  \<^item> The rewards are the floating-point constants of the configuration. The program
    only stores them and hands them back, it never calculates with them, so they are
    modelled as values of type \<open>real\<close>.
  \<^item> An object is a record; a method takes the record and returns its result together
    with the record after the call. A raised exception is a value \<open>Inl e\<close>, and the
    record returned beside it is the object as the exception leaves it.
  \<^item> The attribute \<^verbatim>\<open>traj\<close> is created by \<^verbatim>\<open>reset\<close> only; the constructor does not
    create it. The field \<open>traj\<close> is therefore an option: \<open>None\<close> is the missing
    attribute, and appending to it raises \<^verbatim>\<open>AttributeError\<close>.
  \<^item> The two calls of \<^verbatim>\<open>np.random.randn()\<close> in \<^verbatim>\<open>step\<close> are an argument of the model of
    \<^verbatim>\<open>step\<close>: the pair of numbers drawn. The first point that \<^verbatim>\<open>step\<close> records is a pair of
    floating-point numbers, calculated here in \<open>real\<close>; no theorem below depends on its
    value.
  \<^item> The attributes used only by \<^verbatim>\<open>render\<close> (canvas, colours, animation interval) are
    left out.
\<close>

subsection \<open>Data\<close>

type_synonym pos = "int \<times> int"

type_synonym action = "int \<times> int"

text \<open>The info dictionary returned by \<^verbatim>\<open>reset\<close> and \<^verbatim>\<open>step\<close>.\<close>

type_synonym info = "string \<rightharpoonup> string"

text \<open>
  An entry of the trajectory: a tuple of integers (a cell), or the tuple of floats that
  \<^verbatim>\<open>step\<close> calculates for the drawing.
\<close>

datatype point = IntPoint pos | FloatPoint "real \<times> real"

text \<open>
  \<open>InvalidAction a\<close> is the \<^verbatim>\<open>AssertionError\<close> of the first line of \<^verbatim>\<open>step\<close>, whose message
  is \<^verbatim>\<open>Invalid action\<close> followed by the action. \<open>AttributeError\<close> is raised by
  \<^verbatim>\<open>self.traj.append\<close> when \<^verbatim>\<open>reset\<close> has never been called. \<open>ZeroDivisionError\<close> is
  raised by \<^verbatim>\<open>%\<close> and \<^verbatim>\<open>//\<close> with a zero divisor.
\<close>

datatype error = InvalidAction action | AttributeError | ZeroDivisionError

record GridWorld =
  env_size :: "int \<times> int"
  num_states :: int
  start_state :: pos
  target_state :: pos
  forbidden_states :: "pos list"
  agent_state :: pos
  action_space :: "action list"
  reward_target :: real
  reward_forbidden :: real
  reward_step :: real
  traj :: "point list option"

subsection \<open>The configuration of \<^verbatim>\<open>src/conf/arguments.py\<close>\<close>

definition args_env_size :: "int \<times> int" where
  "args_env_size = (5, 5)"

definition args_start_state :: pos where
  "args_start_state = (0, 0)"

definition args_target_state :: pos where
  "args_target_state = (4, 4)"

definition args_forbidden_states :: "pos list" where
  "args_forbidden_states = [(1, 1), (2, 2), (3, 1)]"

text \<open>Up, right, down, left, stay.\<close>

definition args_action_space :: "action list" where
  "args_action_space = [(0, -1), (1, 0), (0, 1), (-1, 0), (0, 0)]"

definition args_reward_target :: real where
  "args_reward_target = 10"

definition args_reward_forbidden :: real where
  "args_reward_forbidden = -5"

definition args_reward_step :: real where
  "args_reward_step = -1 / 10"

subsection \<open>Constructor and \<^verbatim>\<open>reset\<close>\<close>

text \<open>
  \<^verbatim>\<open>GridWorld.__init__\<close>. The action set and the three rewards always come from the
  configuration; the four arguments default to the configuration's values.
\<close>

definition GridWorld_init :: "int \<times> int \<Rightarrow> pos \<Rightarrow> pos \<Rightarrow> pos list \<Rightarrow> GridWorld" where
  "GridWorld_init sz start target forbidden =
     \<lparr> env_size = sz,
       num_states = fst sz * snd sz,
       start_state = start,
       target_state = target,
       forbidden_states = forbidden,
       agent_state = start,
       action_space = args_action_space,
       reward_target = args_reward_target,
       reward_forbidden = args_reward_forbidden,
       reward_step = args_reward_step,
       traj = None \<rparr>"

definition GridWorld_default :: GridWorld where
  "GridWorld_default =
     GridWorld_init args_env_size args_start_state args_target_state args_forbidden_states"

text \<open>\<^verbatim>\<open>GridWorld.reset\<close>: no branch of it raises.\<close>

definition reset :: "GridWorld \<Rightarrow> (pos \<times> info) \<times> GridWorld" where
  "reset g =
     (let g1 = g\<lparr>agent_state := start_state g\<rparr>;
          g2 = g1\<lparr>traj := Some [IntPoint (agent_state g1)]\<rparr>
      in ((agent_state g2, Map.empty), g2))"

subsection \<open>The transition function\<close>

text \<open>
  The sum \<^verbatim>\<open>tuple(np.array(state) + np.array(action))\<close>. NumPy gives an array built from
  Python integers that all fit a signed 64-bit integer the element type \<^verbatim>\<open>int64\<close> (its
  default integer, where that has 64 bits), and the sum of two such arrays is the sum
  modulo \<open>2^64\<close>, read as a signed number: it wraps around silently. When a component
  does not fit, NumPy chooses another element type for that array (from \<open>2^64\<close> on,
  Python objects, which add exactly); for that case \<open>np_add\<close> returns the exact sum, and
  the unsigned and floating-point element types that NumPy can choose between \<open>2^63\<close>
  and \<open>2^64\<close> are not modelled. The theorems about a moving agent are stated for grids
  whose numbers of rows and columns fit \<^verbatim>\<open>int64\<close>, where every cell of the grid fits too.
\<close>

definition fits_int64 :: "int \<Rightarrow> bool" where
  "fits_int64 n = (- (2 ^ 63) \<le> n \<and> n < 2 ^ 63)"

definition wrap_int64 :: "int \<Rightarrow> int" where
  "wrap_int64 n = (n + 2 ^ 63) mod 2 ^ 64 - 2 ^ 63"

definition np_add :: "pos \<Rightarrow> action \<Rightarrow> pos" where
  "np_add state action =
     (if fits_int64 (fst state) \<and> fits_int64 (snd state)
         \<and> fits_int64 (fst action) \<and> fits_int64 (snd action)
      then (wrap_int64 (fst state + fst action), wrap_int64 (snd state + snd action))
      else (fst state + fst action, snd state + snd action))"

text \<open>\<^verbatim>\<open>GridWorld._get_next_state_and_reward\<close>, branch by branch.\<close>

definition get_next_state_and_reward :: "GridWorld \<Rightarrow> pos \<Rightarrow> action \<Rightarrow> pos \<times> real" where
  "get_next_state_and_reward g state action =
     (let x = fst state;
          y = snd state;
          new_state = np_add state action
      in if y + 1 > snd (env_size g) - 1 \<and> action = (0, 1) then
           ((x, snd (env_size g) - 1), reward_forbidden g)
         else if x + 1 > fst (env_size g) - 1 \<and> action = (1, 0) then
           ((fst (env_size g) - 1, y), reward_forbidden g)
         else if y - 1 < 0 \<and> action = (0, -1) then
           ((x, 0), reward_forbidden g)
         else if x - 1 < 0 \<and> action = (-1, 0) then
           ((0, y), reward_forbidden g)
         else if new_state = target_state g then
           (target_state g, reward_target g)
         else if new_state \<in> set (forbidden_states g) then
           (state, reward_forbidden g)
         else
           (new_state, reward_step g))"

text \<open>\<^verbatim>\<open>GridWorld._is_done\<close>.\<close>

definition is_done :: "GridWorld \<Rightarrow> pos \<Rightarrow> bool" where
  "is_done g state = (state = target_state g)"

subsection \<open>\<^verbatim>\<open>step\<close>\<close>

text \<open>
  \<^verbatim>\<open>GridWorld.step\<close>. The argument \<open>rnd\<close> is the pair of numbers that the two calls of
  \<^verbatim>\<open>np.random.randn()\<close> return. The assertion comes first, so a rejected action leaves
  the object as it was. The agent's position is assigned before the trajectory is
  extended, so on an object that was never reset the \<^verbatim>\<open>AttributeError\<close> leaves the new
  position behind.
\<close>

definition step ::
  "GridWorld \<Rightarrow> action \<Rightarrow> real \<times> real \<Rightarrow> (error + pos \<times> real \<times> bool \<times> info) \<times> GridWorld" where
  "step g action rnd =
     (if action \<notin> set (action_space g) then (Inl (InvalidAction action), g)
      else
        let (next_state, reward) = get_next_state_and_reward g (agent_state g) action;
            done = is_done g next_state;
            x_store = of_int (fst next_state) + 3 / 100 * fst rnd;
            y_store = of_int (snd next_state) + 3 / 100 * snd rnd;
            state_store = (x_store + 2 / 10 * of_int (fst action),
                           y_store + 2 / 10 * of_int (snd action));
            state_store_2 = (fst next_state, snd next_state);
            g1 = g\<lparr>agent_state := next_state\<rparr>
        in case traj g1 of
             None \<Rightarrow> (Inl AttributeError, g1)
           | Some t \<Rightarrow>
               let g2 = g1\<lparr>traj := Some (t @ [FloatPoint state_store, IntPoint state_store_2])\<rparr>
               in (Inr (agent_state g2, reward, done, Map.empty), g2))"

text \<open>
  A caller that issues one \<^verbatim>\<open>step\<close> call after the other, as the loops of the test
  script do. Each call comes with the random numbers it draws. An exception ends the
  sequence.
\<close>

fun steps :: "GridWorld \<Rightarrow> (action \<times> real \<times> real) list \<Rightarrow> error + GridWorld" where
  "steps g [] = Inr g"
| "steps g ((a, rnd) # rest) =
     (case step g a rnd of
        (Inl e, g') \<Rightarrow> Inl e
      | (Inr out, g') \<Rightarrow> steps g' rest)"

subsection \<open>The cell of a state index in the overlays\<close>

text \<open>
  \<^verbatim>\<open>add_policy\<close> and \<^verbatim>\<open>add_state_values\<close> enumerate their argument and calculate, for
  the index of each entry, the cell at which they draw. The two definitions are the
  two places of the source where this is calculated (the first two lines of each loop
  body); the drawing itself is not modelled. Python's \<^verbatim>\<open>%\<close> and \<^verbatim>\<open>//\<close> round towards
  minus infinity, as \<open>mod\<close> and \<open>div\<close> on \<open>int\<close> do, and raise on a zero divisor.
\<close>

definition add_policy_xy :: "GridWorld \<Rightarrow> nat \<Rightarrow> error + pos" where
  "add_policy_xy g state =
     (if fst (env_size g) = 0 then Inl ZeroDivisionError
      else Inr (int state mod fst (env_size g), int state div fst (env_size g)))"

definition add_state_values_xy :: "GridWorld \<Rightarrow> nat \<Rightarrow> error + pos" where
  "add_state_values_xy g i =
     (if fst (env_size g) = 0 then Inl ZeroDivisionError
      else Inr (int i mod fst (env_size g), int i div fst (env_size g)))"

subsection \<open>Predicates of the specification\<close>

text \<open>A cell inside \<open>[0, rows - 1] \<times> [0, cols - 1]\<close>, where \<open>env_size = (rows, cols)\<close>.\<close>

definition in_grid :: "GridWorld \<Rightarrow> pos \<Rightarrow> bool" where
  "in_grid g s =
     (0 \<le> fst s \<and> fst s \<le> fst (env_size g) - 1 \<and> 0 \<le> snd s \<and> snd s \<le> snd (env_size g) - 1)"

text \<open>
  One of the four boundary branches of \<^verbatim>\<open>_get_next_state_and_reward\<close> fires: the
  disjunction of their four conditions, as the source writes them.
\<close>

definition boundary_hit :: "GridWorld \<Rightarrow> pos \<Rightarrow> action \<Rightarrow> bool" where
  "boundary_hit g state action =
     (snd state + 1 > snd (env_size g) - 1 \<and> action = (0, 1)
      \<or> fst state + 1 > fst (env_size g) - 1 \<and> action = (1, 0)
      \<or> snd state - 1 < 0 \<and> action = (0, -1)
      \<or> fst state - 1 < 0 \<and> action = (-1, 0))"

text \<open>
  The transition rules as the specification words them, in its priority order, on the
  attempted position \<open>candidate = position + action\<close>: rules 1 to 4 test the candidate's
  coordinate against the edge and clamp that coordinate to the edge; rule 5 moves to
  the target; rule 6 stays; rule 7 moves to the candidate. This definition follows the
  specification, not the source, and is compared with the source's function below.
\<close>

definition spec_transition :: "GridWorld \<Rightarrow> pos \<Rightarrow> action \<Rightarrow> pos \<times> real" where
  "spec_transition g position action =
     (let rows = fst (env_size g);
          cols = snd (env_size g);
          candidate = (fst position + fst action, snd position + snd action)
      in if action = (0, 1) \<and> snd candidate > cols - 1 then
           ((fst candidate, cols - 1), reward_forbidden g)
         else if action = (1, 0) \<and> fst candidate > rows - 1 then
           ((rows - 1, snd candidate), reward_forbidden g)
         else if action = (0, -1) \<and> snd candidate < 0 then
           ((fst candidate, 0), reward_forbidden g)
         else if action = (-1, 0) \<and> fst candidate < 0 then
           ((0, snd candidate), reward_forbidden g)
         else if candidate = target_state g then
           (target_state g, reward_target g)
         else if candidate \<in> set (forbidden_states g) then
           (position, reward_forbidden g)
         else
           (candidate, reward_step g))"

subsection \<open>Configurations of the test script\<close>

text \<open>
  The first three are the environments that \<^verbatim>\<open>src/test/test_gridworld.py\<close> builds for
  its boundary test, its forbidden-cell test and its target test. The fourth is the
  environment of the forbidden-cell test with the target moved onto the forbidden cell.
\<close>

definition env_boundary :: GridWorld where
  "env_boundary = GridWorld_init (3, 3) (0, 0) (2, 2) []"

definition env_forbidden :: GridWorld where
  "env_forbidden = GridWorld_init (3, 3) (0, 0) (2, 2) [(1, 0)]"

definition env_target :: GridWorld where
  "env_target = GridWorld_init (3, 3) (1, 1) (2, 1) []"

definition env_target_forbidden :: GridWorld where
  "env_target_forbidden = GridWorld_init (3, 3) (0, 0) (1, 0) [(1, 0)]"

text \<open>
  A grid with more than \<open>2^63\<close> rows. Its start cell has the largest first coordinate
  that fits a signed 64-bit integer, and the cell to the right of it is the target and
  also a forbidden cell.
\<close>

definition env_huge :: GridWorld where
  "env_huge = GridWorld_init (2 ^ 63 + 5, 5) (2 ^ 63 - 1, 0) (2 ^ 63, 0) [(2 ^ 63, 0)]"

text \<open>
  A sequence of four calls on \<open>env_forbidden\<close>, each with the numbers it draws: up into
  the wall, right into the forbidden cell, down, right.
\<close>

definition example_calls :: "(action \<times> real \<times> real) list" where
  "example_calls = [((0, - 1), (0, 0)), ((1, 0), (1, 2)), ((0, 1), (- 1, 0)), ((1, 0), (0, 0))]"

section \<open>Properties\<close>

subsection \<open>Helper lemmas\<close>

lemma in_args_action_space:
  "a \<in> set args_action_space \<longleftrightarrow>
     a = (0, -1) \<or> a = (1, 0) \<or> a = (0, 1) \<or> a = (-1, 0) \<or> a = (0, 0)"
  by (auto simp: args_action_space_def)

lemmas env_defs =
  env_boundary_def env_forbidden_def env_target_def env_target_forbidden_def env_huge_def
  GridWorld_init_def args_action_space_def args_reward_target_def
  args_reward_forbidden_def args_reward_step_def

text \<open>Where the 64-bit sum is the exact sum.\<close>

lemma wrap_int64_id: "fits_int64 n \<Longrightarrow> wrap_int64 n = n"
  by (simp add: fits_int64_def wrap_int64_def)

lemma np_add_exact:
  "fits_int64 (fst s + fst a) \<Longrightarrow> fits_int64 (snd s + snd a) \<Longrightarrow>
   np_add s a = (fst s + fst a, snd s + snd a)"
  by (simp add: np_add_def wrap_int64_id)


lemma in_grid_np_add:
  assumes "fits_int64 (fst (env_size g))" and "fits_int64 (snd (env_size g))"
    and "in_grid g s" and "a \<in> set args_action_space"
  shows "np_add s a = (fst s + fst a, snd s + snd a)"
proof (rule np_add_exact)
  show "fits_int64 (fst s + fst a)"
    using assms unfolding in_args_action_space in_grid_def fits_int64_def
    by (elim disjE) simp_all
  show "fits_int64 (snd s + snd a)"
    using assms unfolding in_args_action_space in_grid_def fits_int64_def
    by (elim disjE) simp_all
qed

text \<open>When no boundary branch fires, the last three branches decide.\<close>

lemma not_boundary_hit:
  assumes "\<not> boundary_hit g s a"
  shows "get_next_state_and_reward g s a =
     (let new_state = np_add s a
      in if new_state = target_state g then (target_state g, reward_target g)
         else if new_state \<in> set (forbidden_states g) then (s, reward_forbidden g)
         else (new_state, reward_step g))"
proof -
  from assms have
    "\<not> (snd s + 1 > snd (env_size g) - 1 \<and> a = (0, 1))"
    "\<not> (fst s + 1 > fst (env_size g) - 1 \<and> a = (1, 0))"
    "\<not> (snd s - 1 < 0 \<and> a = (0, -1))"
    "\<not> (fst s - 1 < 0 \<and> a = (-1, 0))"
    unfolding boundary_hit_def by blast+
  then show ?thesis
    unfolding get_next_state_and_reward_def Let_def by (simp only: if_False)
qed

text \<open>
  When one fires from a cell of the grid, the coordinate it assigns is the one the cell
  already has.
\<close>

lemma boundary_hit_result:
  "in_grid g s \<Longrightarrow> boundary_hit g s a \<Longrightarrow>
   get_next_state_and_reward g s a = (s, reward_forbidden g)"
  by (cases s) (auto simp: get_next_state_and_reward_def boundary_hit_def in_grid_def Let_def)

lemma candidate_in_grid:
  assumes "in_grid g s" and "a \<in> set args_action_space" and "\<not> boundary_hit g s a"
  shows "in_grid g (fst s + fst a, snd s + snd a)"
  using assms unfolding in_args_action_space boundary_hit_def in_grid_def
  by (elim disjE) simp_all

lemma trans_in_grid:
  assumes "fits_int64 (fst (env_size g))" and "fits_int64 (snd (env_size g))"
    and "in_grid g s" and "a \<in> set args_action_space"
  shows "in_grid g (fst (get_next_state_and_reward g s a))"
proof (cases "boundary_hit g s a")
  case True
  with assms show ?thesis by (simp add: boundary_hit_result)
next
  case False
  have e: "np_add s a = (fst s + fst a, snd s + snd a)"
    using assms by (rule in_grid_np_add)
  have c: "in_grid g (np_add s a)"
    unfolding e using assms(3,4) False by (rule candidate_in_grid)
  show ?thesis
  proof (cases "np_add s a = target_state g")
    case True
    with c False show ?thesis by (simp add: not_boundary_hit Let_def)
  next
    case False
    with c assms \<open>\<not> boundary_hit g s a\<close> show ?thesis
      by (simp add: not_boundary_hit Let_def)
  qed
qed


text \<open>
  The three outcomes of \<^verbatim>\<open>step\<close>. It returns exactly when the action is in the action
  set and the trajectory exists, that is, when \<^verbatim>\<open>reset\<close> has been called before.
\<close>

lemma step_ok:
  assumes "a \<in> set (action_space g)" and "traj g = Some t"
  shows "step g a rnd =
    (Inr (fst (get_next_state_and_reward g (agent_state g) a),
          snd (get_next_state_and_reward g (agent_state g) a),
          fst (get_next_state_and_reward g (agent_state g) a) = target_state g,
          Map.empty),
     g\<lparr>agent_state := fst (get_next_state_and_reward g (agent_state g) a),
        traj := Some (t @ [FloatPoint
           (of_int (fst (fst (get_next_state_and_reward g (agent_state g) a))) + 3 / 100 * fst rnd
              + 2 / 10 * of_int (fst a),
            of_int (snd (fst (get_next_state_and_reward g (agent_state g) a))) + 3 / 100 * snd rnd
              + 2 / 10 * of_int (snd a)),
           IntPoint (fst (get_next_state_and_reward g (agent_state g) a))])\<rparr>)"
  using assms by (simp add: step_def Let_def is_done_def case_prod_beta)

lemma step_unset:
  assumes "a \<in> set (action_space g)" and "traj g = None"
  shows "step g a rnd =
    (Inl AttributeError, g\<lparr>agent_state := fst (get_next_state_and_reward g (agent_state g) a)\<rparr>)"
  using assms by (simp add: step_def Let_def case_prod_beta)

lemma step_Inr_iff:
  "(\<exists>out. fst (step g a rnd) = Inr out) \<longleftrightarrow> a \<in> set (action_space g) \<and> traj g \<noteq> None"
  by (cases "traj g") (simp_all add: step_def Let_def case_prod_beta)

text \<open>
  The invariant of a sequence of calls: the agent is in the grid, the trajectory exists
  and the action set is the configured one. No call of the sequence raises.
\<close>

lemma steps_inv:
  "in_grid g (agent_state g) \<Longrightarrow> traj g \<noteq> None \<Longrightarrow> action_space g = args_action_space \<Longrightarrow>
   \<forall>(a, rnd) \<in> set as. a \<in> set args_action_space \<Longrightarrow>
   fits_int64 (fst (env_size g)) \<and> fits_int64 (snd (env_size g)) \<Longrightarrow>
   \<exists>g'. steps g as = Inr g' \<and> in_grid g' (agent_state g') \<and> env_size g' = env_size g"
proof (induction as arbitrary: g)
  case Nil
  then show ?case by simp
next
  case (Cons p as)
  obtain a rnd where p: "p = (a, rnd)" by (cases p) auto
  from Cons.prems obtain t where t: "traj g = Some t" by auto
  have a': "a \<in> set args_action_space" using Cons.prems(4) p by simp
  then have a: "a \<in> set (action_space g)" using Cons.prems(3) by simp
  let ?n = "fst (get_next_state_and_reward g (agent_state g) a)"
  obtain g1 out where s: "step g a rnd = (Inr out, g1)" and g1: "agent_state g1 = ?n"
     "env_size g1 = env_size g" "action_space g1 = action_space g" "traj g1 \<noteq> None"
    using step_ok[OF a t, of rnd] by simp
  have "in_grid g ?n"
    using Cons.prems(5) trans_in_grid[OF _ _ Cons.prems(1) a'] by simp
  then have ig: "in_grid g1 (agent_state g1)" using g1 by (simp add: in_grid_def)
  have as: "\<forall>(a, rnd) \<in> set as. a \<in> set args_action_space" using Cons.prems(4) by simp
  have sz: "fits_int64 (fst (env_size g1)) \<and> fits_int64 (snd (env_size g1))"
    using Cons.prems(5) g1(2) by simp
  have "\<exists>g'. steps g1 as = Inr g' \<and> in_grid g' (agent_state g') \<and> env_size g' = env_size g1"
    using Cons.IH[OF ig g1(4) _ as sz] g1(3) Cons.prems(3) by simp
  then show ?case using s p g1(2) by simp
qed

subsection \<open>\<^verbatim>\<open>reset\<close>\<close>

text \<open>
  Claim C4. For every configuration, \<^verbatim>\<open>reset()\<close> sets the agent position to the
  configured start cell, sets the trajectory to the one-element sequence \<open>[start]\<close>, and
  returns the start cell together with an empty info mapping. It has no failure
  condition: \<open>reset\<close> is a total function whose result carries no error. Nothing else
  of the object changes.
\<close>

theorem reset_start:
  "agent_state (snd (reset g)) = start_state g
   \<and> traj (snd (reset g)) = Some [IntPoint (start_state g)]
   \<and> fst (reset g) = (start_state g, Map.empty)
   \<and> snd (reset g) = g\<lparr>agent_state := start_state g, traj := Some [IntPoint (start_state g)]\<rparr>"
  by (simp add: reset_def Let_def)

subsection \<open>The transition rules\<close>

text \<open>
  Claim C1, as amended. In a grid whose numbers of rows and columns fit a signed 64-bit
  integer, for every current position inside the grid and every action of the fixed
  set of five, the transition function of the source returns the position and the
  reward that the seven rules of the specification give, taken in their priority
  order on \<open>candidate = position + action\<close>: the four boundary rules (down, right, up,
  left) clamp to the edge with \<open>reward_forbidden\<close>, then a candidate equal to the target
  moves there with \<open>reward_target\<close>, then a forbidden candidate leaves the agent where it
  is with \<open>reward_forbidden\<close>, and any other candidate is moved to with \<open>reward_step\<close>.
\<close>

theorem transition_refines_spec:
  assumes "fits_int64 (fst (env_size g))" and "fits_int64 (snd (env_size g))"
    and "in_grid g s" and "a \<in> set args_action_space"
  shows "get_next_state_and_reward g s a = spec_transition g s a"
proof -
  have e: "np_add s a = (fst s + fst a, snd s + snd a)"
    using assms by (rule in_grid_np_add)
  show ?thesis
    using assms(4) e unfolding in_args_action_space
    by (elim disjE) (simp_all add: get_next_state_and_reward_def spec_transition_def Let_def)
qed

theorem transition_refines_spec_witness:
  "fits_int64 (fst (env_size env_forbidden)) \<and> fits_int64 (snd (env_size env_forbidden))
   \<and> in_grid env_forbidden (0, 0) \<and> (1, 0) \<in> set args_action_space
   \<and> get_next_state_and_reward env_forbidden (0, 0) (1, 0) = spec_transition env_forbidden (0, 0) (1, 0)
   \<and> spec_transition env_forbidden (0, 0) (1, 0) = ((0, 0), -5)"
proof -
  have b1: "fits_int64 (fst (env_size env_forbidden))" by (simp add: fits_int64_def env_defs)
  have b2: "fits_int64 (snd (env_size env_forbidden))" by (simp add: fits_int64_def env_defs)
  have h1: "in_grid env_forbidden (0, 0)" by (simp add: in_grid_def env_defs)
  have h2: "((1, 0) :: action) \<in> set args_action_space" by (simp add: args_action_space_def)
  have v: "spec_transition env_forbidden (0, 0) (1, 0) = ((0, 0), -5)"
    by (simp add: spec_transition_def env_defs)
  have c: "get_next_state_and_reward env_forbidden (0, 0) (1, 0)
             = spec_transition env_forbidden (0, 0) (1, 0)"
    by (rule transition_refines_spec [OF b1 b2 h1 h2])
  show ?thesis by (intro conjI b1 b2 h1 h2 c v)
qed

text \<open>
  Claim C1 as it was stated, for every position inside the grid, fails in \<open>env_huge\<close>.
  From the cell \<open>(2^63 - 1, 0)\<close>, which is inside the grid, the action \<open>(1, 0)\<close> fires no
  boundary rule, and the candidate \<open>(2^63, 0)\<close> is the target, so the rules of the
  specification move there with \<open>reward_target\<close>. The 64-bit sum of the source is
  \<open>(- 2^63, 0)\<close>, which is neither the target nor forbidden, and the source moves
  there with \<open>reward_step\<close>.
\<close>

theorem transition_refines_spec_counterexample:
  "in_grid env_huge (2 ^ 63 - 1, 0) \<and> (1, 0) \<in> set args_action_space
   \<and> get_next_state_and_reward env_huge (2 ^ 63 - 1, 0) (1, 0) = ((- (2 ^ 63), 0), - 1 / 10)
   \<and> spec_transition env_huge (2 ^ 63 - 1, 0) (1, 0) = ((2 ^ 63, 0), 10)
   \<and> get_next_state_and_reward env_huge (2 ^ 63 - 1, 0) (1, 0)
       \<noteq> spec_transition env_huge (2 ^ 63 - 1, 0) (1, 0)"
proof -
  have h1: "in_grid env_huge (2 ^ 63 - 1, 0)" by (simp add: in_grid_def env_defs)
  have h2: "((1, 0) :: action) \<in> set args_action_space" by (simp add: args_action_space_def)
  have n: "np_add (2 ^ 63 - 1, 0) (1, 0) = (- (2 ^ 63), 0)"
    by (simp add: np_add_def fits_int64_def wrap_int64_def)
  have c: "get_next_state_and_reward env_huge (2 ^ 63 - 1, 0) (1, 0) = ((- (2 ^ 63), 0), - 1 / 10)"
    using n by (simp add: get_next_state_and_reward_def Let_def env_defs)
  have v: "spec_transition env_huge (2 ^ 63 - 1, 0) (1, 0) = ((2 ^ 63, 0), 10)"
    by (simp add: spec_transition_def env_defs)
  have d: "get_next_state_and_reward env_huge (2 ^ 63 - 1, 0) (1, 0)
             \<noteq> spec_transition env_huge (2 ^ 63 - 1, 0) (1, 0)"
    unfolding c v by simp
  show ?thesis by (intro conjI h1 h2 c v d)
qed



text \<open>
  Claim C8, as amended. In a configuration whose target cell is also in the forbidden
  list and whose numbers of rows and columns fit a signed 64-bit integer, from every
  position inside the grid and for every action of the set whose candidate position
  is the target, with no boundary rule firing, the transition moves to the target with
  \<open>reward_target\<close>: the target test comes before the forbidden test.
\<close>

theorem goal_before_forbidden:
  assumes "fits_int64 (fst (env_size g))" and "fits_int64 (snd (env_size g))"
    and "target_state g \<in> set (forbidden_states g)" and "in_grid g s"
    and "a \<in> set args_action_space"
    and "(fst s + fst a, snd s + snd a) = target_state g"
    and "\<not> boundary_hit g s a"
  shows "get_next_state_and_reward g s a = (target_state g, reward_target g)"
proof -
  have "np_add s a = (fst s + fst a, snd s + snd a)"
    using assms(1,2,4,5) by (rule in_grid_np_add)
  then have "np_add s a = target_state g" using assms(6) by simp
  then show ?thesis using assms(7) by (simp add: not_boundary_hit Let_def)
qed

theorem goal_before_forbidden_witness:
  "fits_int64 (fst (env_size env_target_forbidden))
   \<and> fits_int64 (snd (env_size env_target_forbidden))
   \<and> target_state env_target_forbidden \<in> set (forbidden_states env_target_forbidden)
   \<and> in_grid env_target_forbidden (0, 0)
   \<and> (1, 0) \<in> set args_action_space
   \<and> (fst ((0, 0) :: pos) + fst ((1, 0) :: action), snd ((0, 0) :: pos) + snd ((1, 0) :: action))
       = target_state env_target_forbidden
   \<and> \<not> boundary_hit env_target_forbidden (0, 0) (1, 0)
   \<and> get_next_state_and_reward env_target_forbidden (0, 0) (1, 0) = ((1, 0), 10)"
proof -
  have b1: "fits_int64 (fst (env_size env_target_forbidden))"
    by (simp add: fits_int64_def env_defs)
  have b2: "fits_int64 (snd (env_size env_target_forbidden))"
    by (simp add: fits_int64_def env_defs)
  have h1: "target_state env_target_forbidden \<in> set (forbidden_states env_target_forbidden)"
    by (simp add: env_defs)
  have h2: "in_grid env_target_forbidden (0, 0)" by (simp add: in_grid_def env_defs)
  have h3: "((1, 0) :: action) \<in> set args_action_space" by (simp add: args_action_space_def)
  have h4: "(fst ((0, 0) :: pos) + fst ((1, 0) :: action),
             snd ((0, 0) :: pos) + snd ((1, 0) :: action)) = target_state env_target_forbidden"
    by (simp add: env_defs)
  have h5: "\<not> boundary_hit env_target_forbidden (0, 0) (1, 0)"
    by (simp add: boundary_hit_def env_defs)
  have v: "(target_state env_target_forbidden, reward_target env_target_forbidden) = ((1, 0), 10)"
    by (simp add: env_defs)
  have c: "get_next_state_and_reward env_target_forbidden (0, 0) (1, 0) = ((1, 0), 10)"
    using goal_before_forbidden [OF b1 b2 h1 h2 h3 h4 h5] v by simp
  show ?thesis by (intro conjI b1 b2 h1 h2 h3 h4 h5 c)
qed

text \<open>
  Claim C8 as it was stated, for every configuration, fails in \<open>env_huge\<close>, whose target
  \<open>(2^63, 0)\<close> is also forbidden. From the cell \<open>(2^63 - 1, 0)\<close> the candidate of the
  action \<open>(1, 0)\<close> is the target and no boundary rule fires, but the 64-bit sum of the
  source is \<open>(- 2^63, 0)\<close>: the target test fails and the agent moves there with
  \<open>reward_step\<close>.
\<close>

theorem goal_before_forbidden_counterexample:
  "target_state env_huge \<in> set (forbidden_states env_huge)
   \<and> in_grid env_huge (2 ^ 63 - 1, 0)
   \<and> (1, 0) \<in> set args_action_space
   \<and> (fst ((2 ^ 63 - 1, 0) :: pos) + fst ((1, 0) :: action),
       snd ((2 ^ 63 - 1, 0) :: pos) + snd ((1, 0) :: action)) = target_state env_huge
   \<and> \<not> boundary_hit env_huge (2 ^ 63 - 1, 0) (1, 0)
   \<and> get_next_state_and_reward env_huge (2 ^ 63 - 1, 0) (1, 0)
       = ((- (2 ^ 63), 0), reward_step env_huge)
   \<and> get_next_state_and_reward env_huge (2 ^ 63 - 1, 0) (1, 0)
       \<noteq> (target_state env_huge, reward_target env_huge)"
proof -
  have h1: "target_state env_huge \<in> set (forbidden_states env_huge)" by (simp add: env_defs)
  have h2: "in_grid env_huge (2 ^ 63 - 1, 0)" by (simp add: in_grid_def env_defs)
  have h3: "((1, 0) :: action) \<in> set args_action_space" by (simp add: args_action_space_def)
  have h4: "(fst ((2 ^ 63 - 1, 0) :: pos) + fst ((1, 0) :: action),
             snd ((2 ^ 63 - 1, 0) :: pos) + snd ((1, 0) :: action)) = target_state env_huge"
    by (simp add: env_defs)
  have h5: "\<not> boundary_hit env_huge (2 ^ 63 - 1, 0) (1, 0)"
    by (simp add: boundary_hit_def env_defs)
  have n: "np_add (2 ^ 63 - 1, 0) (1, 0) = (- (2 ^ 63), 0)"
    by (simp add: np_add_def fits_int64_def wrap_int64_def)
  have c: "get_next_state_and_reward env_huge (2 ^ 63 - 1, 0) (1, 0)
             = ((- (2 ^ 63), 0), reward_step env_huge)"
    using n by (simp add: get_next_state_and_reward_def Let_def env_defs)
  have d: "get_next_state_and_reward env_huge (2 ^ 63 - 1, 0) (1, 0)
             \<noteq> (target_state env_huge, reward_target env_huge)"
    unfolding c by (simp add: env_defs)
  show ?thesis by (intro conjI h1 h2 h3 h4 h5 c d)
qed

subsection \<open>\<^verbatim>\<open>step\<close>\<close>

text \<open>
  Claim C3. For every value that is not one of the configured action tuples, \<^verbatim>\<open>step\<close>
  fails with the invalid-action error (the failed assertion), and the object after the
  failure is the object before it: neither the agent position nor the trajectory, nor
  any other attribute, has changed.
\<close>

theorem step_invalid_action:
  "a \<notin> set (action_space g) \<Longrightarrow> step g a rnd = (Inl (InvalidAction a), g)"
  by (simp add: step_def)

theorem step_invalid_action_witness:
  "(2, 2) \<notin> set (action_space (snd (reset env_boundary)))
   \<and> step (snd (reset env_boundary)) (2, 2) (0, 0)
       = (Inl (InvalidAction (2, 2)), snd (reset env_boundary))"
proof -
  have h: "(2, 2) \<notin> set (action_space (snd (reset env_boundary)))"
    by (simp add: reset_def Let_def env_defs)
  from step_invalid_action [OF h] h show ?thesis by simp
qed

text \<open>
  Claim C5. Every successful \<^verbatim>\<open>step\<close> call, that is, one with an action of the action
  set on an object whose trajectory \<^verbatim>\<open>reset\<close> has created (\<open>step_Inr_iff\<close>), returns and
  appends exactly two entries to the trajectory, whichever branch of the transition
  fired. The second entry is the resulting agent position, exactly; that position is
  the one the transition function gives and does not depend on the random numbers
  drawn, which only enter the first entry.
\<close>

theorem step_appends_two:
  "a \<in> set (action_space g) \<Longrightarrow> traj g = Some t \<Longrightarrow>
   (\<exists>out. fst (step g a rnd) = Inr out)
   \<and> (\<exists>p. traj (snd (step g a rnd))
          = Some (t @ [FloatPoint p, IntPoint (agent_state (snd (step g a rnd)))]))
   \<and> agent_state (snd (step g a rnd)) = fst (get_next_state_and_reward g (agent_state g) a)"
  by (simp add: step_ok)

theorem step_appends_two_witness:
  "(1, 0) \<in> set (action_space (snd (reset env_forbidden)))
   \<and> traj (snd (reset env_forbidden)) = Some [IntPoint (0, 0)]
   \<and> (\<exists>out. fst (step (snd (reset env_forbidden)) (1, 0) (1, - 1)) = Inr out)
   \<and> (\<exists>p. traj (snd (step (snd (reset env_forbidden)) (1, 0) (1, - 1)))
          = Some ([IntPoint (0, 0)] @ [FloatPoint p,
              IntPoint (agent_state (snd (step (snd (reset env_forbidden)) (1, 0) (1, - 1))))]))
   \<and> agent_state (snd (step (snd (reset env_forbidden)) (1, 0) (1, - 1)))
       = fst (get_next_state_and_reward (snd (reset env_forbidden))
               (agent_state (snd (reset env_forbidden))) (1, 0))"
proof -
  have h1: "(1, 0) \<in> set (action_space (snd (reset env_forbidden)))"
    by (simp add: reset_def Let_def env_defs)
  have h2: "traj (snd (reset env_forbidden)) = Some [IntPoint (0, 0)]"
    by (simp add: reset_def Let_def env_defs)
  from step_appends_two [OF h1 h2, of "(1, - 1)"] h1 h2 show ?thesis by blast
qed

text \<open>
  Claim C6. For every current position inside the grid and every action of the action
  set, \<^verbatim>\<open>step\<close> (on an object that has been reset) returns, and the done flag it returns
  is true if and only if the resulting position, which is also the new agent position,
  equals the target cell.
\<close>

theorem step_done_iff_target:
  "in_grid g (agent_state g) \<Longrightarrow> a \<in> set (action_space g) \<Longrightarrow> traj g = Some t \<Longrightarrow>
   \<exists>s' r d g'. step g a rnd = (Inr (s', r, d, Map.empty), g')
      \<and> agent_state g' = s' \<and> (d \<longleftrightarrow> s' = target_state g)"
  by (simp add: step_ok)

theorem step_done_iff_target_witness:
  "in_grid (snd (reset env_target)) (agent_state (snd (reset env_target)))
   \<and> (1, 0) \<in> set (action_space (snd (reset env_target)))
   \<and> traj (snd (reset env_target)) = Some [IntPoint (1, 1)]
   \<and> (\<exists>s' r d g'. step (snd (reset env_target)) (1, 0) (0, 0) = (Inr (s', r, d, Map.empty), g')
        \<and> agent_state g' = s' \<and> (d \<longleftrightarrow> s' = target_state (snd (reset env_target))))"
proof -
  have h1: "in_grid (snd (reset env_target)) (agent_state (snd (reset env_target)))"
    by (simp add: in_grid_def reset_def Let_def env_defs)
  have h2: "(1, 0) \<in> set (action_space (snd (reset env_target)))"
    by (simp add: reset_def Let_def env_defs)
  have h3: "traj (snd (reset env_target)) = Some [IntPoint (1, 1)]"
    by (simp add: reset_def Let_def env_defs)
  from step_done_iff_target [OF h1 h2 h3, of "(0, 0)"] h1 h2 h3 show ?thesis by blast
qed



subsection \<open>The agent stays inside the grid\<close>

text \<open>
  Claim C2, as amended. For every configuration whose numbers of rows and columns fit
  a signed 64-bit integer, whose start cell is inside the grid and whose action set is
  the configured one, after \<^verbatim>\<open>reset()\<close> and any finite sequence of \<^verbatim>\<open>step\<close> calls with
  actions of the action set, no call has raised and the agent position is inside
  \<open>[0, rows - 1] \<times> [0, cols - 1]\<close>. The sequence is arbitrary, so this holds after every
  call of a sequence, not only after its last one. Neither the target nor the
  forbidden cells need to be inside the grid.
\<close>

theorem agent_stays_in_grid:
  "fits_int64 (fst (env_size g)) \<Longrightarrow> fits_int64 (snd (env_size g)) \<Longrightarrow>
   in_grid g (start_state g) \<Longrightarrow> action_space g = args_action_space \<Longrightarrow>
   \<forall>(a, rnd) \<in> set as. a \<in> set (action_space g) \<Longrightarrow>
   \<exists>g'. steps (snd (reset g)) as = Inr g' \<and> in_grid g (agent_state g')"
proof -
  assume b: "fits_int64 (fst (env_size g))" "fits_int64 (snd (env_size g))"
  assume h: "in_grid g (start_state g)" "action_space g = args_action_space"
    "\<forall>(a, rnd) \<in> set as. a \<in> set (action_space g)"
  let ?g0 = "snd (reset g)"
  have g0: "agent_state ?g0 = start_state g" "traj ?g0 \<noteq> None"
    "action_space ?g0 = action_space g" "env_size ?g0 = env_size g"
    by (simp_all add: reset_def Let_def)
  have 1: "in_grid ?g0 (agent_state ?g0)" using h(1) g0 by (simp add: in_grid_def)
  have 3: "action_space ?g0 = args_action_space" using g0 h(2) by simp
  have 4: "\<forall>(a, rnd) \<in> set as. a \<in> set args_action_space" using h(2,3) by simp
  have 5: "fits_int64 (fst (env_size ?g0)) \<and> fits_int64 (snd (env_size ?g0))"
    using b g0(4) by simp
  from steps_inv[OF 1 g0(2) 3 4 5] obtain g' where
    "steps ?g0 as = Inr g'" "in_grid g' (agent_state g')" "env_size g' = env_size ?g0" by blast
  then show ?thesis using g0(4) by (simp add: in_grid_def)
qed

theorem agent_stays_in_grid_witness:
  "fits_int64 (fst (env_size env_forbidden)) \<and> fits_int64 (snd (env_size env_forbidden))
   \<and> in_grid env_forbidden (start_state env_forbidden)
   \<and> action_space env_forbidden = args_action_space
   \<and> map fst example_calls = [(0, - 1), (1, 0), (0, 1), (1, 0)]
   \<and> (\<exists>g'. steps (snd (reset env_forbidden)) example_calls = Inr g'
            \<and> in_grid env_forbidden (agent_state g'))"
proof -
  have b1: "fits_int64 (fst (env_size env_forbidden))" by (simp add: fits_int64_def env_defs)
  have b2: "fits_int64 (snd (env_size env_forbidden))" by (simp add: fits_int64_def env_defs)
  have h0: "map fst example_calls = [(0, - 1), (1, 0), (0, 1), (1, 0)]"
    by (simp add: example_calls_def)
  have h1: "in_grid env_forbidden (start_state env_forbidden)"
    by (simp add: in_grid_def env_defs)
  have h2: "action_space env_forbidden = args_action_space"
    by (simp add: env_forbidden_def GridWorld_init_def)
  have h3: "\<forall>(a, rnd) \<in> set example_calls. a \<in> set (action_space env_forbidden)"
    unfolding h2 by (simp add: example_calls_def args_action_space_def)
  have c: "\<exists>g'. steps (snd (reset env_forbidden)) example_calls = Inr g'
            \<and> in_grid env_forbidden (agent_state g')"
    by (rule agent_stays_in_grid [OF b1 b2 h1 h2 h3])
  show ?thesis by (intro conjI b1 b2 h1 h2 h0 c)
qed

text \<open>
  Claim C2 as it was stated, for every configuration whose start cell is inside the
  grid, fails in \<open>env_huge\<close>. Its start cell \<open>(2^63 - 1, 0)\<close> is inside the grid and its
  action set is the configured one; after \<^verbatim>\<open>reset()\<close>, the one call \<^verbatim>\<open>step((1, 0))\<close>
  returns and leaves the agent at \<open>(- 2^63, 0)\<close>, outside the grid.
\<close>

theorem agent_stays_in_grid_counterexample:
  "in_grid env_huge (start_state env_huge)
   \<and> action_space env_huge = args_action_space
   \<and> (1, 0) \<in> set (action_space env_huge)
   \<and> steps (snd (reset env_huge)) [((1, 0), (0, 0))]
       = Inr (snd (step (snd (reset env_huge)) (1, 0) (0, 0)))
   \<and> agent_state (snd (step (snd (reset env_huge)) (1, 0) (0, 0))) = (- (2 ^ 63), 0)
   \<and> \<not> in_grid env_huge (- (2 ^ 63), 0)"
proof -
  let ?g0 = "snd (reset env_huge)"
  have h1: "in_grid env_huge (start_state env_huge)" by (simp add: in_grid_def env_defs)
  have h2: "action_space env_huge = args_action_space"
    by (simp add: env_huge_def GridWorld_init_def)
  have h3: "(1, 0) \<in> set (action_space env_huge)"
    unfolding h2 by (simp add: args_action_space_def)
  have a: "(1, 0) \<in> set (action_space ?g0)"
    using h3 by (simp add: reset_def Let_def)
  have t: "traj ?g0 = Some [IntPoint (start_state env_huge)]"
    by (simp add: reset_def Let_def)
  have p: "agent_state ?g0 = (2 ^ 63 - 1, 0)"
    by (simp add: reset_def Let_def env_defs)
  have n: "np_add (2 ^ 63 - 1, 0) (1, 0) = (- (2 ^ 63), 0)"
    by (simp add: np_add_def fits_int64_def wrap_int64_def)
  have c: "get_next_state_and_reward ?g0 (2 ^ 63 - 1, 0) (1, 0) = ((- (2 ^ 63), 0), - 1 / 10)"
    using n by (simp add: get_next_state_and_reward_def Let_def reset_def env_defs)
  have s1: "steps ?g0 [((1, 0), (0, 0))] = Inr (snd (step ?g0 (1, 0) (0, 0)))"
    by (simp add: step_ok [OF a t])
  have s2: "agent_state (snd (step ?g0 (1, 0) (0, 0))) = (- (2 ^ 63), 0)"
    using p c by (simp add: step_ok [OF a t])
  have o: "\<not> in_grid env_huge (- (2 ^ 63), 0)" by (simp add: in_grid_def)
  show ?thesis by (intro conjI h1 h2 h3 s1 s2 o)
qed

subsection \<open>The overlays\<close>

text \<open>
  Claim C9. For every state index \<open>i\<close> in \<open>[0, rows * cols)\<close>, the policy overlay and
  the state-value overlay both map the index to the cell \<open>x = i % rows\<close>,
  \<open>y = i // rows\<close>, without raising, and so both use the same mapping.
\<close>

theorem overlay_index_to_cell:
  "int i < fst (env_size g) * snd (env_size g) \<Longrightarrow>
   add_policy_xy g i = Inr (int i mod fst (env_size g), int i div fst (env_size g))
   \<and> add_state_values_xy g i = Inr (int i mod fst (env_size g), int i div fst (env_size g))
   \<and> add_policy_xy g i = add_state_values_xy g i"
  by (auto simp: add_policy_xy_def add_state_values_xy_def)

theorem overlay_index_to_cell_witness:
  "int 7 < fst (env_size GridWorld_default) * snd (env_size GridWorld_default)
   \<and> add_policy_xy GridWorld_default 7 = Inr (2, 1)
   \<and> add_state_values_xy GridWorld_default 7 = Inr (2, 1)
   \<and> add_policy_xy GridWorld_default 7 = add_state_values_xy GridWorld_default 7"
proof -
  have e: "env_size GridWorld_default = (5, 5)"
    by (simp add: GridWorld_default_def GridWorld_init_def args_env_size_def)
  have h: "int 7 < fst (env_size GridWorld_default) * snd (env_size GridWorld_default)"
    by (simp add: e)
  from overlay_index_to_cell [OF h] h e show ?thesis by simp
qed

end
